theory Spec2Isabelle
  imports Complex_Main "HOL-Library.Product_Lexorder" "HOL-Library.Sublist"
begin

section \<open>Numbers and errors\<close>

text \<open>
  A float64 value: a finite value, given by the real number it stands for (\<open>Fin 0\<close> is
  +0.0), negative zero, the two infinities, and NaN. The special values behave as in
  IEEE 754.
\<close>

datatype fl = Fin real | NegZero | PInf | NInf | NaN

definition is_zero :: "fl \<Rightarrow> bool" where
  "is_zero x = (x = Fin 0 \<or> x = NegZero)"

definition is_infinite :: "fl \<Rightarrow> bool" where
  "is_infinite x = (x = PInf \<or> x = NInf)"

definition is_finite :: "fl \<Rightarrow> bool" where
  "is_finite x = (case x of Fin _ \<Rightarrow> True | NegZero \<Rightarrow> True | _ \<Rightarrow> False)"

text \<open>The real number of a finite value (0 for the others).\<close>

fun fin_val :: "fl \<Rightarrow> real" where
  "fin_val (Fin r) = r"
| "fin_val _ = 0"

text \<open>The sign bit, of a value that is not NaN.\<close>

fun negative :: "fl \<Rightarrow> bool" where
  "negative (Fin a) = (a < 0)"
| "negative NegZero = True"
| "negative NInf = True"
| "negative _ = False"

definition signed_zero :: "bool \<Rightarrow> fl" where
  "signed_zero neg = (if neg then NegZero else Fin 0)"

definition signed_inf :: "bool \<Rightarrow> fl" where
  "signed_inf neg = (if neg then NInf else PInf)"

text \<open>
  The rounding of float64 arithmetic is a parameter of the model: for the magnitude of
  an exact result it gives the magnitude of the float64 that is returned, \<open>None\<close> when
  the result is beyond the largest float64 and becomes an infinity. Every theorem holds
  for every rounding. What IEEE 754 fixes for any rounding to nearest is written out: an
  exact zero is +0.0, a whole number of magnitude up to \<open>2^53\<close> is a float64 and is
  returned as it is, and a rounded result has the sign of the exact one.
\<close>

type_synonym rounding = "real \<Rightarrow> real option"

definition exact_int :: "real \<Rightarrow> bool" where
  "exact_int x = (of_int \<lfloor>x\<rfloor> = x \<and> \<bar>x\<bar> \<le> 9007199254740992)"

definition round64 :: "rounding \<Rightarrow> real \<Rightarrow> fl" where
  "round64 rd x =
     (if x = 0 then Fin 0
      else if exact_int x then Fin x
      else (case rd \<bar>x\<bar> of
              None \<Rightarrow> signed_inf (x < 0)
            | Some m \<Rightarrow> if m = 0 then signed_zero (x < 0)
                        else Fin (if x < 0 then - \<bar>m\<bar> else \<bar>m\<bar>)))"

fun fneg :: "fl \<Rightarrow> fl" where
  "fneg (Fin a) = (if a = 0 then NegZero else Fin (- a))"
| "fneg NegZero = Fin 0"
| "fneg PInf = NInf"
| "fneg NInf = PInf"
| "fneg NaN = NaN"

text \<open>
  The sum of two floats. Adding a zero changes nothing; the sum of two zeros is -0.0
  only when both are.
\<close>

fun fadd :: "rounding \<Rightarrow> fl \<Rightarrow> fl \<Rightarrow> fl" where
  "fadd rd NaN _ = NaN"
| "fadd rd _ NaN = NaN"
| "fadd rd PInf NInf = NaN"
| "fadd rd NInf PInf = NaN"
| "fadd rd PInf _ = PInf"
| "fadd rd _ PInf = PInf"
| "fadd rd NInf _ = NInf"
| "fadd rd _ NInf = NInf"
| "fadd rd NegZero NegZero = NegZero"
| "fadd rd NegZero (Fin b) = Fin b"
| "fadd rd (Fin a) NegZero = Fin a"
| "fadd rd (Fin a) (Fin b) =
     (if a = 0 then Fin b else if b = 0 then Fin a else round64 rd (a + b))"

definition fsub :: "rounding \<Rightarrow> fl \<Rightarrow> fl \<Rightarrow> fl" where
  "fsub rd a b = fadd rd a (fneg b)"

text \<open>
  Division as numpy and pandas do it: nothing is raised. A zero divisor gives an
  infinity, or NaN for 0/0; the sign of a zero or an infinity that results is the
  product of the two signs, that of a zero divisor included.
\<close>

definition fdiv :: "rounding \<Rightarrow> fl \<Rightarrow> fl \<Rightarrow> fl" where
  "fdiv rd a b =
     (if a = NaN \<or> b = NaN then NaN
      else if is_infinite a then
        (if is_infinite b then NaN else signed_inf (negative a \<noteq> negative b))
      else if is_infinite b then signed_zero (negative a \<noteq> negative b)
      else if is_zero b then
        (if is_zero a then NaN else signed_inf (negative a \<noteq> negative b))
      else if is_zero a then signed_zero (negative a \<noteq> negative b)
      else round64 rd (fin_val a / fin_val b))"


text \<open>
  The comparisons \<open>a <= b\<close>, \<open>a == b\<close> and \<open>a < b\<close> on floats: false as soon as one
  side is NaN, and the two zeros are equal.
\<close>

definition fle :: "fl \<Rightarrow> fl \<Rightarrow> bool" where
  "fle a b =
     (a \<noteq> NaN \<and> b \<noteq> NaN
      \<and> (a = NInf \<or> b = PInf \<or> (is_finite a \<and> is_finite b \<and> fin_val a \<le> fin_val b)))"

definition feq :: "fl \<Rightarrow> fl \<Rightarrow> bool" where
  "feq a b = (a \<noteq> NaN \<and> b \<noteq> NaN \<and> (a = b \<or> (is_zero a \<and> is_zero b)))"

definition flt :: "fl \<Rightarrow> fl \<Rightarrow> bool" where
  "flt a b = (fle a b \<and> \<not> feq a b)"

text \<open>The exceptions the modelled code can raise, with the message where a claim reads it.\<close>

datatype error =
    KeyError string
  | AttributeError
  | TypeError
  | ValueError string
  | IndexError
  | ZeroDivisionError
  | LinAlgError
  | DataError


section \<open>Tables\<close>

text \<open>
  A pandas Series by dtype. A datetime64[ns] entry is the number of nanoseconds since
  1970-01-01, \<open>None\<close> being NaT; an object column holds Python strings and missing
  entries (\<open>None\<close>, for Python's None or NaN); an integer column holds unbounded
  integers (the wrap-around of int64 is not modelled).
\<close>

datatype column =
    DatetimeCol "int option list"
  | ObjectCol "string option list"
  | FloatCol "fl list"
  | IntCol "int list"

text \<open>
  A DataFrame: its columns by name, in order. Row labels are not modelled: a row is its
  position.
\<close>

type_synonym table = "(string \<times> column) list"

fun col_len :: "column \<Rightarrow> nat" where
  "col_len (DatetimeCol xs) = length xs"
| "col_len (ObjectCol xs) = length xs"
| "col_len (FloatCol xs) = length xs"
| "col_len (IntCol xs) = length xs"

text \<open>\<open>len(data)\<close>: the number of rows.\<close>

definition nrows :: "table \<Rightarrow> nat" where
  "nrows data = (case data of [] \<Rightarrow> 0 | (_, c) # _ \<Rightarrow> col_len c)"

text \<open>\<open>data[name]\<close> raises KeyError on a column the table does not have.\<close>

definition getitem :: "table \<Rightarrow> string \<Rightarrow> error + column" where
  "getitem data name = (case map_of data name of None \<Rightarrow> Inl (KeyError name) | Some c \<Rightarrow> Inr c)"

text \<open>
  \<open>data[name] = c\<close> replaces the column where it stands, or appends it as the last
  column.
\<close>

fun setitem :: "table \<Rightarrow> string \<Rightarrow> column \<Rightarrow> table" where
  "setitem [] name c = [(name, c)]"
| "setitem ((n, c0) # rest) name c =
     (if n = name then (n, c) # rest else (n, c0) # setitem rest name c)"

text \<open>The values of a numeric column as floats; \<open>None\<close> for the other dtypes.\<close>

fun numeric_values :: "column \<Rightarrow> fl list option" where
  "numeric_values (FloatCol xs) = Some xs"
| "numeric_values (IntCol xs) = Some (map (\<lambda>x. Fin (of_int x)) xs)"
| "numeric_values _ = None"

text \<open>
  The values of a numeric column in float64 arithmetic: an integer is converted, which
  rounds it when it is beyond \<open>2^53\<close>.
\<close>

fun float_values :: "rounding \<Rightarrow> column \<Rightarrow> fl list option" where
  "float_values rd (FloatCol xs) = Some xs"
| "float_values rd (IntCol xs) = Some (map (\<lambda>x. round64 rd (of_int x)) xs)"
| "float_values rd _ = None"

text \<open>Boolean indexing, \<open>xs[mask]\<close>: the entries whose mask is true, in order.\<close>

definition take_mask :: "bool list \<Rightarrow> 'a list \<Rightarrow> 'a list" where
  "take_mask m xs = map snd (filter fst (zip m xs))"

fun col_take_mask :: "bool list \<Rightarrow> column \<Rightarrow> column" where
  "col_take_mask m (DatetimeCol xs) = DatetimeCol (take_mask m xs)"
| "col_take_mask m (ObjectCol xs) = ObjectCol (take_mask m xs)"
| "col_take_mask m (FloatCol xs) = FloatCol (take_mask m xs)"
| "col_take_mask m (IntCol xs) = IntCol (take_mask m xs)"

definition table_take_mask :: "bool list \<Rightarrow> table \<Rightarrow> table" where
  "table_take_mask m data = map (\<lambda>(n, c). (n, col_take_mask m c)) data"

text \<open>A table is empty when it has no row: every column it has is of length 0.\<close>

definition empty_table :: "table \<Rightarrow> bool" where
  "empty_table data = list_all (\<lambda>(n, c). col_len c = 0) data"

section \<open>Dates\<close>

text \<open>
  \<open>pd.to_datetime\<close> on a value that is not yet a timestamp (a string, a number) is a
  parameter of the model: a \<open>parser\<close> gives the timestamp, NaT (\<open>None\<close>) or the error
  that is raised. Every theorem holds for every parser.
\<close>

datatype pyval = PStr string | PInt int | PFloat fl

type_synonym parser = "pyval \<Rightarrow> error + int option"

text \<open>The results of a list of calls, or the first error raised.\<close>

fun sequence_err :: "(error + 'a) list \<Rightarrow> error + 'a list" where
  "sequence_err [] = Inr []"
| "sequence_err (Inl e # _) = Inl e"
| "sequence_err (Inr x # rest) =
     (case sequence_err rest of Inl e \<Rightarrow> Inl e | Inr xs \<Rightarrow> Inr (x # xs))"

fun to_datetime :: "parser \<Rightarrow> column \<Rightarrow> error + int option list" where
  "to_datetime p (DatetimeCol ts) = Inr ts"
| "to_datetime p (ObjectCol ss) =
     sequence_err (map (\<lambda>s. case s of None \<Rightarrow> Inr None | Some v \<Rightarrow> p (PStr v)) ss)"
| "to_datetime p (IntCol xs) = sequence_err (map (\<lambda>x. p (PInt x)) xs)"
| "to_datetime p (FloatCol fs) = sequence_err (map (\<lambda>x. p (PFloat x)) fs)"

fun is_datetime64_dtype :: "column \<Rightarrow> bool" where
  "is_datetime64_dtype (DatetimeCol _) = True"
| "is_datetime64_dtype _ = False"

text \<open>
  The first two lines of \<open>convert_to_weekly\<close>, \<open>convert_to_monthly\<close> and
  \<open>filter_by_date_range\<close>:
  \<^verbatim>\<open>if not pd.api.types.is_datetime64_dtype(data[date_column]):
      data[date_column] = pd.to_datetime(data[date_column])\<close>
  The assignment is to the caller's table, so the table is returned as it is afterwards.
\<close>

definition ensure_datetime :: "parser \<Rightarrow> table \<Rightarrow> string \<Rightarrow> (error + unit) \<times> table" where
  "ensure_datetime p data date_column =
     (case getitem data date_column of
        Inl e \<Rightarrow> (Inl e, data)
      | Inr c \<Rightarrow>
          if is_datetime64_dtype c then (Inr (), data)
          else (case to_datetime p c of
                  Inl e \<Rightarrow> (Inl e, data)
                | Inr ts \<Rightarrow> (Inr (), setitem data date_column (DatetimeCol ts))))"

text \<open>The \<open>.dt\<close> accessor exists on datetime columns only.\<close>

fun dt :: "column \<Rightarrow> error + int option list" where
  "dt (DatetimeCol ts) = Inr ts"
| "dt _ = Inl AttributeError"

text \<open>
  The proleptic Gregorian calendar on day numbers (days since 1970-01-01), by the usual
  era arithmetic; \<open>div\<close> and \<open>mod\<close> on \<open>int\<close> round down, as Python's do.
\<close>

definition ns_per_day :: int where
  "ns_per_day = 86400000000000"

definition day_number :: "int \<Rightarrow> int" where
  "day_number t = t div ns_per_day"

definition civil_from_days :: "int \<Rightarrow> int \<times> int \<times> int" where
  "civil_from_days z =
     (let z1 = z + 719468;
          era = z1 div 146097;
          doe = z1 mod 146097;
          yoe = (doe - doe div 1460 + doe div 36524 - doe div 146096) div 365;
          doy = doe - (365 * yoe + yoe div 4 - yoe div 100);
          mp = (5 * doy + 2) div 153;
          d = doy - (153 * mp + 2) div 5 + 1;
          m = (if mp < 10 then mp + 3 else mp - 9);
          y = yoe + era * 400
      in (if m \<le> 2 then y + 1 else y, m, d))"

definition days_from_civil :: "int \<Rightarrow> int \<Rightarrow> int \<Rightarrow> int" where
  "days_from_civil y0 m d =
     (let y = (if m \<le> 2 then y0 - 1 else y0);
          era = y div 400;
          yoe = y mod 400;
          doy = (153 * (if m > 2 then m - 3 else m + 9) + 2) div 5 + d - 1;
          doe = yoe * 365 + yoe div 4 - yoe div 100 + doy
      in era * 146097 + doe - 719468)"

definition dt_year :: "int \<Rightarrow> int" where
  "dt_year t = fst (civil_from_days (day_number t))"

definition dt_month :: "int \<Rightarrow> int" where
  "dt_month t = fst (snd (civil_from_days (day_number t)))"

text \<open>
  ISO 8601: weeks start on Monday, and a week belongs to the year that holds its
  Thursday. 1970-01-01 was a Thursday.
\<close>

definition iso_thursday :: "int \<Rightarrow> int" where
  "iso_thursday t = (let z = day_number t in z - (z + 3) mod 7 + 3)"

definition iso_year :: "int \<Rightarrow> int" where
  "iso_year t = fst (civil_from_days (iso_thursday t))"

definition iso_week :: "int \<Rightarrow> int" where
  "iso_week t = (iso_thursday t - days_from_civil (iso_year t) 1 1) div 7 + 1"

text \<open>
  A calendar field of a datetime column, \<open>data[c].dt.year\<close> and the like: an integer
  column, or, as soon as one date is NaT, a column whose missing entries are NaN. (The
  \<open>isocalendar()\<close> fields are nullable integers in pandas, their missing entries
  \<open><NA>\<close>; they are written NaN here as well.)
\<close>

definition dt_field :: "(int \<Rightarrow> int) \<Rightarrow> int option list \<Rightarrow> column" where
  "dt_field f ts =
     (case those ts of
        Some xs \<Rightarrow> IntCol (map f xs)
      | None \<Rightarrow> FloatCol (map (\<lambda>t. case t of None \<Rightarrow> NaN | Some x \<Rightarrow> Fin (of_int (f x))) ts))"

text \<open>\<open>data[name].dt.<field>\<close>, with the errors of the lookup and of the accessor.\<close>

definition getitem_dt_field :: "table \<Rightarrow> string \<Rightarrow> (int \<Rightarrow> int) \<Rightarrow> error + column" where
  "getitem_dt_field data name f =
     (case getitem data name of
        Inl e \<Rightarrow> Inl e
      | Inr c \<Rightarrow> (case dt c of Inl e \<Rightarrow> Inl e | Inr ts \<Rightarrow> Inr (dt_field f ts)))"

section \<open>Grouping\<close>

datatype aggfunc = Sum | First

text \<open>
  The group key a row has in a key column; \<open>None\<close> is a missing key. Both callers
  assign their key columns from calendar fields, so a key is a whole number; an object
  column is never a key column, and the model has no keys for one.
\<close>

fun key_cells :: "column \<Rightarrow> int option list option" where
  "key_cells (IntCol xs) = Some (map Some xs)"
| "key_cells (FloatCol fs) =
     Some (map (\<lambda>x. if is_finite x then Some \<lfloor>fin_val x\<rfloor> else None) fs)"
| "key_cells (DatetimeCol ts) = Some ts"
| "key_cells (ObjectCol ss) = None"

definition row_keys :: "int option list \<Rightarrow> int option list \<Rightarrow> (int \<times> int) option list" where
  "row_keys a b =
     map (\<lambda>(x, y). case x of None \<Rightarrow> None
                    | Some u \<Rightarrow> (case y of None \<Rightarrow> None | Some v \<Rightarrow> Some (u, v))) (zip a b)"

text \<open>
  The groups of \<open>groupby\<close>, in ascending order of their keys; a row with a missing key
  is in no group (\<open>dropna=True\<close>, the default).
\<close>

definition group_keys :: "(int \<times> int) option list \<Rightarrow> (int \<times> int) list" where
  "group_keys rks = sort (remdups (List.map_filter (\<lambda>k. k) rks))"

definition group_of :: "(int \<times> int) option list \<Rightarrow> 'a list \<Rightarrow> int \<times> int \<Rightarrow> 'a list" where
  "group_of rks xs k = map snd (filter (\<lambda>(rk, x). rk = Some k) (zip rks xs))"

text \<open>
  The sum of floats skips NaN (\<open>skipna=True\<close>); the empty sum is 0.0. pandas and numpy
  add in an order of their own, with compensation in \<open>groupby\<close>, so what a sum returns
  is a parameter of the model (a \<open>summation\<close>, given the values that are not NaN), but
  for the sums that no order and no rounding can change: those of whole numbers whose
  magnitudes add up to at most \<open>2^53\<close>, where every partial sum is a float64.
\<close>

type_synonym summation = "fl list \<Rightarrow> fl"

definition whole_numbers :: "fl list \<Rightarrow> bool" where
  "whole_numbers xs =
     (list_all (\<lambda>x. case x of Fin r \<Rightarrow> of_int \<lfloor>r\<rfloor> = r | _ \<Rightarrow> False) xs
      \<and> sum_list (map (\<lambda>x. \<bar>fin_val x\<bar>) xs) \<le> 9007199254740992)"

definition nansum :: "summation \<Rightarrow> fl list \<Rightarrow> fl" where
  "nansum fs xs =
     (let vs = filter (\<lambda>x. x \<noteq> NaN) xs
      in if whole_numbers vs then Fin (sum_list (map fin_val vs)) else fs vs)"

text \<open>
  \<open>series.sum()\<close>, as the tests take it of a value column: an integer for an integer
  column, a float that skips NaN for a float column, the strings put together for an
  object column; a datetime column has no sum.
\<close>

fun series_sum :: "summation \<Rightarrow> column \<Rightarrow> error + pyval" where
  "series_sum fs (IntCol xs) = Inr (PInt (sum_list xs))"
| "series_sum fs (FloatCol xs) = Inr (PFloat (nansum fs xs))"
| "series_sum fs (ObjectCol xs) = Inr (PStr (concat (List.map_filter (\<lambda>s. s) xs)))"
| "series_sum fs (DatetimeCol xs) = Inl TypeError"

text \<open>\<open>'first'\<close>: the first entry of the group that is not missing.\<close>

definition first_float :: "fl list \<Rightarrow> fl" where
  "first_float g = (case filter (\<lambda>x. x \<noteq> NaN) g of [] \<Rightarrow> NaN | x # _ \<Rightarrow> x)"

definition first_option :: "'a option list \<Rightarrow> 'a option" where
  "first_option g = (case filter (\<lambda>x. x \<noteq> None) g of [] \<Rightarrow> None | x # _ \<Rightarrow> x)"

text \<open>An integer column has no missing entry, and a group has at least one row.\<close>

definition first_int :: "int list \<Rightarrow> int" where
  "first_int g = (case g of [] \<Rightarrow> 0 | x # _ \<Rightarrow> x)"

fun agg_column ::
  "summation \<Rightarrow> aggfunc \<Rightarrow> column \<Rightarrow> (int \<times> int) option list \<Rightarrow> (int \<times> int) list
     \<Rightarrow> error + column" where
  "agg_column fs Sum (IntCol xs) rks gks =
     Inr (IntCol (map (\<lambda>k. sum_list (group_of rks xs k)) gks))"
| "agg_column fs Sum (FloatCol xs) rks gks =
     Inr (FloatCol (map (\<lambda>k. nansum fs (group_of rks xs k)) gks))"
| "agg_column fs Sum (ObjectCol xs) rks gks =
     Inr (ObjectCol (map (\<lambda>k. Some (concat (List.map_filter (\<lambda>s. s) (group_of rks xs k)))) gks))"
| "agg_column fs Sum (DatetimeCol xs) rks gks = Inl TypeError"
| "agg_column fs First (IntCol xs) rks gks =
     Inr (IntCol (map (\<lambda>k. first_int (group_of rks xs k)) gks))"
| "agg_column fs First (FloatCol xs) rks gks =
     Inr (FloatCol (map (\<lambda>k. first_float (group_of rks xs k)) gks))"
| "agg_column fs First (ObjectCol xs) rks gks =
     Inr (ObjectCol (map (\<lambda>k. first_option (group_of rks xs k)) gks))"
| "agg_column fs First (DatetimeCol xs) rks gks =
     Inr (DatetimeCol (map (\<lambda>k. first_option (group_of rks xs k)) gks))"

text \<open>The key column of the result (\<open>reset_index\<close>) has the dtype of the key column.\<close>

fun key_column :: "column \<Rightarrow> int list \<Rightarrow> column" where
  "key_column (IntCol _) ks = IntCol ks"
| "key_column (FloatCol _) ks = FloatCol (map (\<lambda>k. Fin (of_int k)) ks)"
| "key_column (DatetimeCol _) ks = DatetimeCol (map Some ks)"
| "key_column (ObjectCol _) ks = ObjectCol []"

text \<open>One entry of the \<open>agg\<close> dictionary: the column must exist.\<close>

definition agg_entry ::
  "summation \<Rightarrow> table \<Rightarrow> (int \<times> int) option list \<Rightarrow> (int \<times> int) list
     \<Rightarrow> string \<times> aggfunc \<Rightarrow> error + string \<times> column" where
  "agg_entry fs data rks gks entry =
     (case entry of (n, f) \<Rightarrow>
        (case getitem data n of
           Inl e \<Rightarrow> Inl e
         | Inr c \<Rightarrow> (case agg_column fs f c rks gks of Inl e \<Rightarrow> Inl e | Inr c' \<Rightarrow> Inr (n, c'))))"

text \<open>
  \<open>reset_index()\<close> puts the keys back as columns, the last key first, and refuses a key
  whose name an aggregated column has.
\<close>

definition cannot_insert :: "string \<Rightarrow> string" where
  "cannot_insert name = ''cannot insert '' @ name @ '', already exists''"

definition reset_index ::
  "string \<times> column \<Rightarrow> string \<times> column \<Rightarrow> table \<Rightarrow> error + table" where
  "reset_index key1 key2 cols =
     (if fst key2 \<in> set (map fst cols) then Inl (ValueError (cannot_insert (fst key2)))
      else if fst key1 \<in> set (map fst cols) then Inl (ValueError (cannot_insert (fst key1)))
      else Inr (key1 # key2 # cols))"

text \<open>\<open>data.groupby([k1, k2]).agg(spec).reset_index()\<close>\<close>

definition groupby_agg ::
  "summation \<Rightarrow> table \<Rightarrow> string \<Rightarrow> string \<Rightarrow> (string \<times> aggfunc) list \<Rightarrow> error + table" where
  "groupby_agg fs data k1 k2 spec =
     (case getitem data k1 of
        Inl e \<Rightarrow> Inl e
      | Inr c1 \<Rightarrow>
     (case getitem data k2 of
        Inl e \<Rightarrow> Inl e
      | Inr c2 \<Rightarrow>
     (case key_cells c1 of
        None \<Rightarrow> Inl TypeError
      | Some a \<Rightarrow>
     (case key_cells c2 of
        None \<Rightarrow> Inl TypeError
      | Some b \<Rightarrow>
          let rks = row_keys a b; gks = group_keys rks in
          (case sequence_err (map (agg_entry fs data rks gks) spec) of
             Inl e \<Rightarrow> Inl e
           | Inr cols \<Rightarrow>
               reset_index (k1, key_column c1 (map fst gks)) (k2, key_column c2 (map snd gks))
                 cols)))))"

text \<open>
  The dictionary \<open>{value_column: 'sum', date_column: 'first'}\<close>: when both names are
  the same, Python keeps one key with the last value.
\<close>

definition agg_dict :: "string \<Rightarrow> string \<Rightarrow> (string \<times> aggfunc) list" where
  "agg_dict value_column date_column =
     (if value_column = date_column then [(date_column, First)]
      else [(value_column, Sum), (date_column, First)])"

section \<open>data/data_processor.py\<close>

text \<open>
  Every function returns its result, or the error it raises, together with the caller's
  table as the call leaves it: what the function assigns to \<open>data\<close> itself is seen by
  the caller, what it assigns to \<open>data.copy()\<close> is not. The parser, the summation and
  the rounding that a function takes first are the parameters of the model, not
  arguments of the Python function.
\<close>

text \<open>
  \<^verbatim>\<open>def convert_to_weekly(data, date_column, value_column):
      if not pd.api.types.is_datetime64_dtype(data[date_column]):
          data[date_column] = pd.to_datetime(data[date_column])
      data['week'] = data[date_column].dt.isocalendar().week
      data['year'] = data[date_column].dt.isocalendar().year
      weekly_data = data.groupby(['year', 'week']).agg({
          value_column: 'sum',
          date_column: 'first'
      }).reset_index()
      return weekly_data\<close>
\<close>

definition convert_to_weekly ::
  "parser \<Rightarrow> summation \<Rightarrow> table \<Rightarrow> string \<Rightarrow> string \<Rightarrow> (error + table) \<times> table" where
  "convert_to_weekly p fs data date_column value_column =
     (case ensure_datetime p data date_column of
        (Inl e, data1) \<Rightarrow> (Inl e, data1)
      | (Inr _, data1) \<Rightarrow>
     (case getitem_dt_field data1 date_column iso_week of
        Inl e \<Rightarrow> (Inl e, data1)
      | Inr week \<Rightarrow>
          let data2 = setitem data1 ''week'' week in
     (case getitem_dt_field data2 date_column iso_year of
        Inl e \<Rightarrow> (Inl e, data2)
      | Inr year \<Rightarrow>
          let data3 = setitem data2 ''year'' year in
          (groupby_agg fs data3 ''year'' ''week'' (agg_dict value_column date_column), data3))))"

text \<open>
  \<^verbatim>\<open>def convert_to_monthly(data, date_column, value_column):\<close>
  as \<open>convert_to_weekly\<close>, with
  \<^verbatim>\<open>data['month'] = data[date_column].dt.month
  data['year'] = data[date_column].dt.year\<close>
  and the groups of \<open>['year', 'month']\<close>.
\<close>

definition convert_to_monthly ::
  "parser \<Rightarrow> summation \<Rightarrow> table \<Rightarrow> string \<Rightarrow> string \<Rightarrow> (error + table) \<times> table" where
  "convert_to_monthly p fs data date_column value_column =
     (case ensure_datetime p data date_column of
        (Inl e, data1) \<Rightarrow> (Inl e, data1)
      | (Inr _, data1) \<Rightarrow>
     (case getitem_dt_field data1 date_column dt_month of
        Inl e \<Rightarrow> (Inl e, data1)
      | Inr month \<Rightarrow>
          let data2 = setitem data1 ''month'' month in
     (case getitem_dt_field data2 date_column dt_year of
        Inl e \<Rightarrow> (Inl e, data2)
      | Inr year \<Rightarrow>
          let data3 = setitem data2 ''year'' year in
          (groupby_agg fs data3 ''year'' ''month'' (agg_dict value_column date_column), data3))))"

text \<open>\<open>shift(1)\<close>: every entry moves one row down, and the first row is missing.\<close>

definition shift :: "'a \<Rightarrow> 'a list \<Rightarrow> 'a list" where
  "shift fill xs = (if xs = [] then [] else fill # butlast xs)"

text \<open>An integer column becomes a float column, to hold the missing entry.\<close>

fun shift1 :: "rounding \<Rightarrow> column \<Rightarrow> column" where
  "shift1 rd (FloatCol xs) = FloatCol (shift NaN xs)"
| "shift1 rd (IntCol xs) = FloatCol (shift NaN (map (\<lambda>x. round64 rd (of_int x)) xs))"
| "shift1 rd (DatetimeCol xs) = DatetimeCol (shift None xs)"
| "shift1 rd (ObjectCol xs) = ObjectCol (shift None xs)"

text \<open>
  Arithmetic on two columns, row by row. On object columns Python computes each row: a
  string operand raises TypeError, two missing entries (NaN) give NaN. A datetime
  operand is refused: the difference of two datetime columns is a timedelta column, which
  the division that follows it in \<open>calculate_growth_rate\<close> refuses; the model has no
  timedelta column and raises the same error one step earlier, on a copy no caller sees.
\<close>

definition series_arith ::
  "rounding \<Rightarrow> (fl \<Rightarrow> fl \<Rightarrow> fl) \<Rightarrow> column \<Rightarrow> column \<Rightarrow> error + column" where
  "series_arith rd f a b =
     (case (float_values rd a, float_values rd b) of
        (Some xs, Some ys) \<Rightarrow> Inr (FloatCol (map (\<lambda>(x, y). f x y) (zip xs ys)))
      | _ \<Rightarrow>
        (case (a, b) of
           (ObjectCol xs, ObjectCol ys) \<Rightarrow>
             if list_all (\<lambda>(x, y). x = None \<and> y = None) (zip xs ys)
             then Inr (ObjectCol (map (\<lambda>_. None) (zip xs ys)))
             else Inl TypeError
         | _ \<Rightarrow> Inl TypeError))"

text \<open>
  \<^verbatim>\<open>def calculate_growth_rate(data, value_column):
      data = data.copy()
      data['previous_value'] = data[value_column].shift(1)
      data['growth_rate'] = (data[value_column] - data['previous_value']) / data['previous_value']
      return data\<close>
\<close>

definition calculate_growth_rate ::
  "rounding \<Rightarrow> table \<Rightarrow> string \<Rightarrow> (error + table) \<times> table" where
  "calculate_growth_rate rd data value_column =
     (let copy = data in
      (case getitem copy value_column of
         Inl e \<Rightarrow> (Inl e, data)
       | Inr v \<Rightarrow>
           let copy1 = setitem copy ''previous_value'' (shift1 rd v) in
      (case getitem copy1 value_column of
         Inl e \<Rightarrow> (Inl e, data)
       | Inr v1 \<Rightarrow>
      (case getitem copy1 ''previous_value'' of
         Inl e \<Rightarrow> (Inl e, data)
       | Inr prev \<Rightarrow>
      (case series_arith rd (fsub rd) v1 prev of
         Inl e \<Rightarrow> (Inl e, data)
       | Inr diff \<Rightarrow>
      (case series_arith rd (fdiv rd) diff prev of
         Inl e \<Rightarrow> (Inl e, data)
       | Inr rate \<Rightarrow> (Inr (setitem copy1 ''growth_rate'' rate), data)))))))"

text \<open>
  The rolling mean as pandas computes it (\<open>roll_mean\<close> of its window aggregations), for
  a fixed window \<open>w\<close> and \<open>min_periods = w\<close>. Infinite values count as missing. Row
  \<open>i\<close> has the window of the rows \<open>i + 1 - w\<close> to \<open>i\<close>. A running state is carried
  from row to row, all of it in float64: the count of the values that are not missing,
  their sum with the compensation of Kahan's summation, one for the additions and one
  for the removals, the count of the values with the sign bit, and the last value added
  with the number of times it has been added in a row.
\<close>

definition prep_value :: "fl \<Rightarrow> fl" where
  "prep_value x = (if is_infinite x then NaN else x)"

record mean_state =
  nobs :: int
  sum_x :: fl
  neg_ct :: int
  compensation_add :: fl
  compensation_remove :: fl
  num_consecutive_same_value :: int
  prev_value :: fl

text \<open>
  \<^verbatim>\<open>if val == val:
      nobs[0] = nobs[0] + 1
      y = val - compensation[0]
      t = sum_x[0] + y
      compensation[0] = t - sum_x[0] - y
      sum_x[0] = t
      if signbit(val):
          neg_ct[0] = neg_ct[0] + 1
      if val == prev_value[0]:
          num_consecutive_same_value[0] += 1
      else:
          num_consecutive_same_value[0] = 1
      prev_value[0] = val\<close>
\<close>

definition add_mean :: "rounding \<Rightarrow> mean_state \<Rightarrow> fl \<Rightarrow> mean_state" where
  "add_mean rd st val =
     (if val = NaN then st
      else
        let y = fsub rd val (compensation_add st);
            t = fadd rd (sum_x st) y
        in \<lparr> nobs = nobs st + 1,
             sum_x = t,
             neg_ct = (if negative val then neg_ct st + 1 else neg_ct st),
             compensation_add = fsub rd (fsub rd t (sum_x st)) y,
             compensation_remove = compensation_remove st,
             num_consecutive_same_value =
               (if feq val (prev_value st) then num_consecutive_same_value st + 1 else 1),
             prev_value = val \<rparr>)"

text \<open>
  \<^verbatim>\<open>if val == val:
      nobs[0] = nobs[0] - 1
      y = -val - compensation[0]
      t = sum_x[0] + y
      compensation[0] = t - sum_x[0] - y
      sum_x[0] = t
      if signbit(val):
          neg_ct[0] = neg_ct[0] - 1\<close>
\<close>

definition remove_mean :: "rounding \<Rightarrow> mean_state \<Rightarrow> fl \<Rightarrow> mean_state" where
  "remove_mean rd st val =
     (if val = NaN then st
      else
        let y = fsub rd (fneg val) (compensation_remove st);
            t = fadd rd (sum_x st) y
        in \<lparr> nobs = nobs st - 1,
             sum_x = t,
             neg_ct = (if negative val then neg_ct st - 1 else neg_ct st),
             compensation_add = compensation_add st,
             compensation_remove = fsub rd (fsub rd t (sum_x st)) y,
             num_consecutive_same_value = num_consecutive_same_value st,
             prev_value = prev_value st \<rparr>)"

text \<open>
  \<^verbatim>\<open>if nobs >= minp and nobs > 0:
      result = sum_x / <float64_t>nobs
      if num_consecutive_same_value >= nobs:
          result = prev_value
      elif neg_ct == 0 and result < 0:
          result = 0
      elif neg_ct == nobs and result > 0:
          result = 0
  else:
      result = NaN\<close>
\<close>

definition calc_mean :: "rounding \<Rightarrow> int \<Rightarrow> mean_state \<Rightarrow> fl" where
  "calc_mean rd minp st =
     (if nobs st \<ge> minp \<and> nobs st > 0 then
        let result = fdiv rd (sum_x st) (Fin (of_int (nobs st)))
        in if num_consecutive_same_value st \<ge> nobs st then prev_value st
           else if neg_ct st = 0 \<and> flt result (Fin 0) then Fin 0
           else if neg_ct st = nobs st \<and> flt (Fin 0) result then Fin 0
           else result
      else NaN)"

text \<open>
  The window of row \<open>i\<close> is \<open>[i + 1 - w, i + 1)\<close> (the subtraction stops at 0). Row 0,
  and a row whose window starts at or after the end of the last one, starts afresh from
  the value at the start of the window; another row takes out of the state the values
  that have left the window and adds the values that have entered it.
\<close>

definition window_start :: "nat \<Rightarrow> nat \<Rightarrow> nat" where
  "window_start w i = i + 1 - w"

definition value_at :: "fl list \<Rightarrow> nat \<Rightarrow> fl" where
  "value_at vals j = (if j < length vals then vals ! j else NaN)"

definition setup_state :: "fl \<Rightarrow> mean_state" where
  "setup_state v =
     \<lparr> nobs = 0, sum_x = Fin 0, neg_ct = 0, compensation_add = Fin 0,
       compensation_remove = Fin 0, num_consecutive_same_value = 0, prev_value = v \<rparr>"

definition roll_step :: "rounding \<Rightarrow> nat \<Rightarrow> fl list \<Rightarrow> nat \<Rightarrow> mean_state \<Rightarrow> mean_state" where
  "roll_step rd w vals i st =
     (let s = window_start w i; e = i + 1 in
      if i = 0 \<or> s \<ge> i then
        foldl (add_mean rd) (setup_state (value_at vals s)) (map (\<lambda>j. vals ! j) [s..<e])
      else
        foldl (add_mean rd)
          (foldl (remove_mean rd) st (map (\<lambda>j. vals ! j) [window_start w (i - 1)..<s]))
          (map (\<lambda>j. vals ! j) [i..<e]))"

fun roll_mean_loop ::
  "rounding \<Rightarrow> nat \<Rightarrow> fl list \<Rightarrow> nat list \<Rightarrow> mean_state \<Rightarrow> fl list" where
  "roll_mean_loop rd w vals [] st = []"
| "roll_mean_loop rd w vals (i # rest) st =
     (let st' = roll_step rd w vals i st
      in calc_mean rd (int w) st' # roll_mean_loop rd w vals rest st')"

definition roll_mean :: "rounding \<Rightarrow> nat \<Rightarrow> fl list \<Rightarrow> fl list" where
  "roll_mean rd w xs =
     roll_mean_loop rd w (map prep_value xs) [0..<length xs] (setup_state NaN)"

text \<open>
  \<open>series.rolling(window=window).mean()\<close>: a negative window is refused, and so is a
  column that is not numeric.
\<close>

definition rolling_mean :: "rounding \<Rightarrow> column \<Rightarrow> int \<Rightarrow> error + column" where
  "rolling_mean rd c window =
     (if window < 0 then Inl (ValueError ''window must be an integer 0 or greater'')
      else (case float_values rd c of
              None \<Rightarrow> Inl DataError
            | Some xs \<Rightarrow> Inr (FloatCol (roll_mean rd (nat window) xs))))"

text \<open>\<open>str(n)\<close> for a natural number.\<close>

fun str_nat :: "nat \<Rightarrow> string" where
  "str_nat n = (if n < 10 then [''0123456789'' ! n] else str_nat (n div 10) @ [''0123456789'' ! (n mod 10)])"

text \<open>
  \<^verbatim>\<open>def calculate_moving_average(data, value_column, window=7):
      data = data.copy()
      data[f'{value_column}_ma{window}'] = data[value_column].rolling(window=window).mean()
      return data\<close>
\<close>

definition ma_name :: "string \<Rightarrow> int \<Rightarrow> string" where
  "ma_name value_column window = value_column @ ''_ma'' @ str_nat (nat window)"

definition calculate_moving_average ::
  "rounding \<Rightarrow> table \<Rightarrow> string \<Rightarrow> int \<Rightarrow> (error + table) \<times> table" where
  "calculate_moving_average rd data value_column window =
     (let copy = data in
      (case getitem copy value_column of
         Inl e \<Rightarrow> (Inl e, data)
       | Inr v \<Rightarrow>
      (case rolling_mean rd v window of
         Inl e \<Rightarrow> (Inl e, data)
       | Inr ma \<Rightarrow> (Inr (setitem copy (ma_name value_column window) ma), data))))"

text \<open>A bound of \<open>filter_by_date_range\<close>: a string or a timestamp (NaT is \<open>None\<close>).\<close>

datatype bound = BStr string | BTimestamp "int option"

text \<open>
  \<^verbatim>\<open>if isinstance(start_date, str):
      start_date = pd.to_datetime(start_date)\<close>
\<close>

fun to_bound :: "parser \<Rightarrow> bound \<Rightarrow> error + int option" where
  "to_bound p (BStr s) = p (PStr s)"
| "to_bound p (BTimestamp t) = Inr t"

text \<open>A comparison with NaT on either side is false.\<close>

definition ts_le :: "int option \<Rightarrow> int option \<Rightarrow> bool" where
  "ts_le a b = (case a of None \<Rightarrow> False | Some x \<Rightarrow> (case b of None \<Rightarrow> False | Some y \<Rightarrow> x \<le> y))"

text \<open>\<open>data[name] >= t\<close> and \<open>data[name] <= t\<close> for a timestamp \<open>t\<close>.\<close>

definition column_ge :: "table \<Rightarrow> string \<Rightarrow> int option \<Rightarrow> error + bool list" where
  "column_ge data name t =
     (case getitem data name of
        Inl e \<Rightarrow> Inl e
      | Inr c \<Rightarrow> (case c of DatetimeCol ds \<Rightarrow> Inr (map (\<lambda>d. ts_le t d) ds) | _ \<Rightarrow> Inl TypeError))"

definition column_le :: "table \<Rightarrow> string \<Rightarrow> int option \<Rightarrow> error + bool list" where
  "column_le data name t =
     (case getitem data name of
        Inl e \<Rightarrow> Inl e
      | Inr c \<Rightarrow> (case c of DatetimeCol ds \<Rightarrow> Inr (map (\<lambda>d. ts_le d t) ds) | _ \<Rightarrow> Inl TypeError))"

text \<open>
  \<^verbatim>\<open>def filter_by_date_range(data, date_column, start_date, end_date):
      if not pd.api.types.is_datetime64_dtype(data[date_column]):
          data[date_column] = pd.to_datetime(data[date_column])
      if isinstance(start_date, str):
          start_date = pd.to_datetime(start_date)
      if isinstance(end_date, str):
          end_date = pd.to_datetime(end_date)
      filtered_data = data[(data[date_column] >= start_date) & (data[date_column] <= end_date)]
      return filtered_data\<close>
\<close>

definition filter_by_date_range ::
  "parser \<Rightarrow> table \<Rightarrow> string \<Rightarrow> bound \<Rightarrow> bound \<Rightarrow> (error + table) \<times> table" where
  "filter_by_date_range p data date_column start_date end_date =
     (case ensure_datetime p data date_column of
        (Inl e, data1) \<Rightarrow> (Inl e, data1)
      | (Inr _, data1) \<Rightarrow>
     (case to_bound p start_date of
        Inl e \<Rightarrow> (Inl e, data1)
      | Inr s \<Rightarrow>
     (case to_bound p end_date of
        Inl e \<Rightarrow> (Inl e, data1)
      | Inr e \<Rightarrow>
     (case column_ge data1 date_column s of
        Inl err \<Rightarrow> (Inl err, data1)
      | Inr m1 \<Rightarrow>
     (case column_le data1 date_column e of
        Inl err \<Rightarrow> (Inl err, data1)
      | Inr m2 \<Rightarrow>
          (Inr (table_take_mask (map (\<lambda>(a, b). a \<and> b) (zip m1 m2)) data1), data1))))))"

section \<open>utils/analytics.py\<close>


text \<open>
  \<^verbatim>\<open>def calculate_running_average(data, column, window=7):
      return data[column].rolling(window=window).mean()\<close>
\<close>

definition calculate_running_average ::
  "rounding \<Rightarrow> table \<Rightarrow> string \<Rightarrow> int \<Rightarrow> error + column" where
  "calculate_running_average rd data column window =
     (case getitem data column of Inl e \<Rightarrow> Inl e | Inr c \<Rightarrow> rolling_mean rd c window)"




text \<open>
  \<open>np.polyfit(x, y, 1)\<close> for \<open>x = 0, 1, ..., n - 1\<close>: the least-squares line, exactly.
  No point is refused with TypeError; one point, or a value that is not finite, leaves
  the solver with NaN and it gives up.
\<close>

definition polyfit1 :: "fl list \<Rightarrow> error + real \<times> real" where
  "polyfit1 ys =
     (if ys = [] then Inl TypeError
      else (case those (map (\<lambda>y. if is_finite y then Some (fin_val y) else None) ys) of
              None \<Rightarrow> Inl LinAlgError
            | Some rs \<Rightarrow>
                if length rs = 1 then Inl LinAlgError
                else
                  let n = real (length rs);
                      xs = map real [0..<length rs];
                      sx = sum_list xs;
                      sy = sum_list rs;
                      sxx = sum_list (map (\<lambda>x. x * x) xs);
                      sxy = sum_list (map (\<lambda>(x, y). x * y) (zip xs rs));
                      slope = (n * sxy - sx * sy) / (n * sxx - sx * sx)
                  in Inr (slope, (sy - slope * sx) / n)))"

text \<open>\<open>series.iloc[-1]\<close>\<close>

definition iloc_last :: "column \<Rightarrow> error + fl" where
  "iloc_last c =
     (case numeric_values c of
        Some xs \<Rightarrow> (if xs = [] then Inl IndexError else Inr (last xs))
      | None \<Rightarrow> (if col_len c = 0 then Inl IndexError else Inl TypeError))"

definition unsupported_method :: "string \<Rightarrow> string" where
  "unsupported_method method =
     ''Prediction method '' @ [CHR 0x27] @ method @ [CHR 0x27] @ '' not supported''"

text \<open>
  \<^verbatim>\<open>def predict_future_value(data, column, periods=1, method='linear'):
      if method == 'linear':
          x = np.arange(len(data))
          y = data[column].values
          slope, intercept = np.polyfit(x, y, 1)
          future_x = np.arange(len(data), len(data) + periods)
          future_y = slope * future_x + intercept
          return future_y
      elif method == 'moving_average':
          window = min(7, len(data))
          ma = data[column].rolling(window=window).mean().iloc[-1]
          return [ma] * periods
      else:
          raise ValueError(f"Prediction method '{method}' not supported")\<close>
\<close>

definition predict_future_value ::
  "rounding \<Rightarrow> table \<Rightarrow> string \<Rightarrow> int \<Rightarrow> string \<Rightarrow> error + fl list" where
  "predict_future_value rd data column periods method =
     (if method = ''linear'' then
        (case getitem data column of
           Inl e \<Rightarrow> Inl e
         | Inr c \<Rightarrow>
        (case numeric_values c of
           None \<Rightarrow> Inl TypeError
         | Some ys \<Rightarrow>
        (case polyfit1 ys of
           Inl e \<Rightarrow> Inl e
         | Inr (slope, intercept) \<Rightarrow>
             Inr (map (\<lambda>x. Fin (slope * real x + intercept))
                    [nrows data..<nat (int (nrows data) + periods)]))))
      else if method = ''moving_average'' then
        (let window = min 7 (int (nrows data)) in
         (case getitem data column of
            Inl e \<Rightarrow> Inl e
          | Inr c \<Rightarrow>
         (case rolling_mean rd c window of
            Inl e \<Rightarrow> Inl e
          | Inr r \<Rightarrow>
         (case iloc_last r of
            Inl e \<Rightarrow> Inl e
          | Inr ma \<Rightarrow> Inr (replicate (nat periods) ma)))))
      else Inl (ValueError (unsupported_method method)))"

section \<open>Fixtures\<close>

text \<open>\<open>start <= d <= end\<close> on timestamps, false when one of the three is NaT.\<close>

definition in_range :: "int option \<Rightarrow> int option \<Rightarrow> int option \<Rightarrow> bool" where
  "in_range s e d = (ts_le s d \<and> ts_le d e)"

text \<open>
  An instance of the rounding, for the theorems that are run: a result within the range
  of float64 is kept as it is, a larger one overflows.
\<close>

definition range_rounding :: rounding where
  "range_rounding x = (if x < 2 ^ 1024 then Some x else None)"


text \<open>
  An instance of the parser, for the theorems that are run on strings: it reads the ISO
  dates \<open>YYYY-MM-DD\<close> of the calendar as midnight of that day, and an integer as
  nanoseconds, as pandas does; here every other value is refused.
\<close>

definition digit_of :: "char \<Rightarrow> int option" where
  "digit_of c = map_of (zip ''0123456789'' [0, 1, 2, 3, 4, 5, 6, 7, 8, 9]) c"

fun digits_value :: "int \<Rightarrow> string \<Rightarrow> int option" where
  "digits_value acc [] = Some acc"
| "digits_value acc (c # cs) =
     (case digit_of c of None \<Rightarrow> None | Some d \<Rightarrow> digits_value (10 * acc + d) cs)"

definition iso_parser :: parser where
  "iso_parser v =
     (case v of
        PInt n \<Rightarrow> Inr (Some n)
      | PFloat x \<Rightarrow> Inl TypeError
      | PStr s \<Rightarrow>
          if length s = 10 \<and> s ! 4 = CHR ''-'' \<and> s ! 7 = CHR ''-'' then
            (case (digits_value 0 (take 4 s), digits_value 0 (take 2 (drop 5 s)),
                   digits_value 0 (drop 8 s)) of
               (Some y, Some m, Some d) \<Rightarrow>
                 if civil_from_days (days_from_civil y m d) = (y, m, d)
                 then Inr (Some (days_from_civil y m d * ns_per_day))
                 else Inl (ValueError s)
             | _ \<Rightarrow> Inl (ValueError s))
          else Inl (ValueError s))"



section \<open>Facts about the table primitives\<close>


lemma float_values_len:
  "float_values rd c = Some xs \<Longrightarrow> col_len c = length xs"
  by (cases c) auto

lemma numeric_float_values:
  "numeric_values c = Some xs \<Longrightarrow> \<exists>ys. float_values rd c = Some ys \<and> length ys = length xs"
  by (cases c) auto


lemma getitem_setitem:
  "getitem (setitem data n c) m = (if m = n then Inr c else getitem data m)"
  by (induction data n c rule: setitem.induct) (auto simp: getitem_def)

lemma shift1_numeric:
  "float_values rd c = Some vs \<Longrightarrow> shift1 rd c = FloatCol (shift NaN vs)"
  by (cases c) auto

lemma length_shift [simp]: "length (shift a xs) = length xs"
  by (simp add: shift_def)

lemma nth_shift:
  "i < length xs \<Longrightarrow> shift a xs ! i = (if i = 0 then a else xs ! (i - 1))"
  by (cases i) (auto simp: shift_def nth_butlast)

lemma series_arith_numeric:
  "float_values rd a = Some xs \<Longrightarrow> float_values rd b = Some ys \<Longrightarrow>
   series_arith rd f a b = Inr (FloatCol (map (\<lambda>(x, y). f x y) (zip xs ys)))"
  by (simp add: series_arith_def)

lemma length_roll_mean_loop [simp]:
  "length (roll_mean_loop rd w vals is st) = length is"
  by (induction "is" arbitrary: st) (auto simp: Let_def)

lemma length_roll_mean [simp]: "length (roll_mean rd w xs) = length xs"
  by (simp add: roll_mean_def)

lemma roll_mean_Nil [simp]: "roll_mean rd w xs = [] \<longleftrightarrow> xs = []"
  using length_roll_mean [of rd w xs] by (metis length_0_conv)

lemma rolling_mean_numeric:
  "float_values rd c = Some xs \<Longrightarrow> 0 \<le> w \<Longrightarrow>
   rolling_mean rd c w = Inr (FloatCol (roll_mean rd (nat w) xs))"
  by (simp add: rolling_mean_def)

section \<open>The percentile rank\<close>



section \<open>The forecast\<close>

lemma those_finite:
  "list_all is_finite ys \<Longrightarrow>
   \<exists>rs. those (map (\<lambda>y. if is_finite y then Some (fin_val y) else None) ys) = Some rs
        \<and> length rs = length ys"
  by (induction ys) auto

lemma polyfit1_returns:
  assumes "list_all is_finite ys" and "2 \<le> length ys"
  shows "\<exists>r. polyfit1 ys = Inr r"
proof -
  from those_finite [OF assms(1)] obtain rs
    where "those (map (\<lambda>y. if is_finite y then Some (fin_val y) else None) ys) = Some rs"
      and "length rs = length ys"
    by blast
  with assms(2) show ?thesis
    by (auto simp: polyfit1_def Let_def)
qed

lemma unsupported_method_names: "sublist method (unsupported_method method)"
  unfolding unsupported_method_def
  by (metis sublist_appendI append.assoc)

text \<open>
  C8. For every method string other than \<open>linear\<close> and \<open>moving_average\<close>,
  \<open>predict_future_value\<close> raises the unsupported-method ValueError, whatever the table,
  the column and the number of periods are (nothing is looked at before), and the
  message holds the method name. For the two supported methods that error is never
  raised, and the call returns: for \<open>moving_average\<close> on a numeric column with at
  least one row, for \<open>linear\<close> on a column of at least two finite values.
\<close>

theorem predict_future_value_method:
  "(method \<noteq> ''linear'' \<and> method \<noteq> ''moving_average'' \<longrightarrow>
      predict_future_value rd data column periods method = Inl (ValueError (unsupported_method method))
      \<and> sublist method (unsupported_method method))
   \<and> (method = ''linear'' \<or> method = ''moving_average'' \<longrightarrow>
      (\<forall>m. predict_future_value rd data column periods method \<noteq> Inl (ValueError (unsupported_method m))))
   \<and> (getitem data column = Inr c \<and> numeric_values c = Some ys \<and> ys \<noteq> [] \<longrightarrow>
      (\<exists>r. predict_future_value rd data column periods ''moving_average'' = Inr r))
   \<and> (getitem data column = Inr c \<and> numeric_values c = Some ys \<and> list_all is_finite ys
        \<and> 2 \<le> length ys \<longrightarrow>
      (\<exists>r. predict_future_value rd data column periods ''linear'' = Inr r))"
proof (intro conjI impI allI)
  assume "method \<noteq> ''linear'' \<and> method \<noteq> ''moving_average''"
  then show "predict_future_value rd data column periods method = Inl (ValueError (unsupported_method method))"
    by (simp add: predict_future_value_def)
next
  show "sublist method (unsupported_method method)"
    by (rule unsupported_method_names)
next
  fix m
  assume "method = ''linear'' \<or> method = ''moving_average''"
  then show "predict_future_value rd data column periods method \<noteq> Inl (ValueError (unsupported_method m))"
    by (auto simp: predict_future_value_def getitem_def polyfit1_def rolling_mean_def iloc_last_def
        unsupported_method_def Let_def
        split: option.splits sum.splits if_splits prod.splits)
next
  assume h: "getitem data column = Inr c \<and> numeric_values c = Some ys \<and> ys \<noteq> []"
  have w: "0 \<le> min 7 (int (nrows data))"
    by simp
  from h obtain zs where zs: "float_values rd c = Some zs" "length zs = length ys"
    using numeric_float_values by blast
  with h have "zs \<noteq> []"
    by auto
  with h zs show "\<exists>r. predict_future_value rd data column periods ''moving_average'' = Inr r"
    by (simp add: predict_future_value_def Let_def rolling_mean_numeric [OF _ w] iloc_last_def)
next
  assume h: "getitem data column = Inr c \<and> numeric_values c = Some ys \<and> list_all is_finite ys
        \<and> 2 \<le> length ys"
  then obtain r where "polyfit1 ys = Inr r"
    using polyfit1_returns by blast
  with h show "\<exists>r. predict_future_value rd data column periods ''linear'' = Inr r"
    by (cases r) (simp add: predict_future_value_def)
qed

theorem predict_future_value_method_witness:
  "predict_future_value range_rounding [(''value'', IntCol [1, 3, 5])] ''value'' 2 ''foo''
     = Inl (ValueError (unsupported_method ''foo''))
   \<and> sublist ''foo'' (unsupported_method ''foo'')
   \<and> predict_future_value range_rounding [(''value'', IntCol [1, 3, 5])] ''value'' 2 ''linear''
       \<noteq> Inl (ValueError (unsupported_method ''linear''))
   \<and> (\<exists>r. predict_future_value range_rounding [(''value'', IntCol [1, 3, 5])] ''value'' 2 ''moving_average'' = Inr r)
   \<and> (\<exists>r. predict_future_value range_rounding [(''value'', IntCol [1, 3, 5])] ''value'' 2 ''linear'' = Inr r)"
  using predict_future_value_method [of "''foo''" range_rounding "[(''value'', IntCol [1, 3, 5])]" "''value''" 2
      "IntCol [1, 3, 5]" "[Fin 1, Fin 3, Fin 5]"]
    predict_future_value_method [of "''linear''" range_rounding "[(''value'', IntCol [1, 3, 5])]" "''value''" 2
      "IntCol [1, 3, 5]" "[Fin 1, Fin 3, Fin 5]"]
  by (simp add: getitem_def is_finite_def)

section \<open>The growth rate\<close>

text \<open>
  On a numeric value column whose name is not \<open>previous_value\<close> the function returns,
  and its two new columns are the shifted values and, row by row, the difference divided
  by the shifted value. The caller's table is as it was.
\<close>

lemma calculate_growth_rate_numeric:
  assumes "getitem data value_column = Inr c" and "float_values rd c = Some vs"
    and "value_column \<noteq> ''previous_value''"
  shows "calculate_growth_rate rd data value_column =
           (Inr (setitem (setitem data ''previous_value'' (FloatCol (shift NaN vs))) ''growth_rate''
                   (FloatCol (map (\<lambda>(d, p). fdiv rd d p)
                      (zip (map (\<lambda>(x, y). fsub rd x y) (zip vs (shift NaN vs))) (shift NaN vs))))), data)"
  using assms
  by (simp add: calculate_growth_rate_def Let_def getitem_setitem shift1_numeric series_arith_numeric)

lemma fsub_NaN [simp]: "fsub rd x NaN = NaN"
  by (cases x) (simp_all add: fsub_def)

lemma fdiv_NaN [simp]: "fdiv rd x NaN = NaN"
  by (simp add: fdiv_def)






lemma nth_growth:
  assumes "i < length vs"
  shows "map (\<lambda>(d, p). fdiv rd d p)
           (zip (map (\<lambda>(x, y). fsub rd x y) (zip vs (shift NaN vs))) (shift NaN vs)) ! i =
         (if i = 0 then NaN else fdiv rd (fsub rd (vs ! i) (vs ! (i - 1))) (vs ! (i - 1)))"
  using assms by (simp add: nth_shift)

text \<open>
  The rows of the \<open>growth_rate\<close> column, for a numeric value column of another name
  than \<open>previous_value\<close>: NaN in row 0, and in every row \<open>i > 0\<close> the float64
  quotient of the float64 difference \<open>value[i] - value[i-1]\<close> by \<open>value[i-1]\<close>.
\<close>

lemma growth_rate_rows:
  assumes "getitem data value_column = Inr c" and "float_values rd c = Some vs"
    and "value_column \<noteq> ''previous_value''"
  shows "\<exists>out g. calculate_growth_rate rd data value_column = (Inr out, data)
           \<and> getitem out ''growth_rate'' = Inr (FloatCol g)
           \<and> length g = length vs
           \<and> (vs \<noteq> [] \<longrightarrow> g ! 0 = NaN)
           \<and> (\<forall>i. 0 < i \<and> i < length vs \<longrightarrow>
                  g ! i = fdiv rd (fsub rd (vs ! i) (vs ! (i - 1))) (vs ! (i - 1)))"
proof -
  let ?g = "map (\<lambda>(d, p). fdiv rd d p)
              (zip (map (\<lambda>(x, y). fsub rd x y) (zip vs (shift NaN vs))) (shift NaN vs))"
  let ?out = "setitem (setitem data ''previous_value'' (FloatCol (shift NaN vs))) ''growth_rate''
                (FloatCol ?g)"
  have run: "calculate_growth_rate rd data value_column = (Inr ?out, data)"
    by (rule calculate_growth_rate_numeric [OF assms])
  have col: "getitem ?out ''growth_rate'' = Inr (FloatCol ?g)"
    by (simp add: getitem_setitem)
  have len: "length ?g = length vs"
    by simp
  have first: "vs \<noteq> [] \<longrightarrow> ?g ! 0 = NaN"
    using nth_growth [of 0 vs rd] by simp
  have later: "\<forall>i. 0 < i \<and> i < length vs \<longrightarrow>
      ?g ! i = fdiv rd (fsub rd (vs ! i) (vs ! (i - 1))) (vs ! (i - 1))"
    using nth_growth [of _ vs rd] by simp
  from run col len first later show ?thesis
    by blast
qed

text \<open>
  C5. The claim fails on a table whose value column is itself named
  \<open>previous_value\<close>: the function writes the shifted values into that column and then
  reads the column back as the values, so that every rate is \<open>(p - p) / p\<close> for the
  shifted value \<open>p\<close>. For the values 1, 2, 4 the rates are NaN, 0, 0, whereas the same
  values in a column named \<open>value\<close> give NaN, 1, 1, which is
  \<open>(value[i] - value[i-1]) / value[i-1]\<close>.
\<close>

theorem calculate_growth_rate_own_column:
  "calculate_growth_rate rd [(''previous_value'', IntCol [1, 2, 4])] ''previous_value'' =
     (Inr [(''previous_value'', FloatCol [NaN, Fin 1, Fin 2]),
           (''growth_rate'', FloatCol [NaN, Fin 0, Fin 0])],
      [(''previous_value'', IntCol [1, 2, 4])])
   \<and> calculate_growth_rate rd [(''value'', IntCol [1, 2, 4])] ''value'' =
     (Inr [(''value'', IntCol [1, 2, 4]),
           (''previous_value'', FloatCol [NaN, Fin 1, Fin 2]),
           (''growth_rate'', FloatCol [NaN, Fin 1, Fin 1])],
      [(''value'', IntCol [1, 2, 4])])"
  by (simp add: calculate_growth_rate_def getitem_def shift_def series_arith_def fsub_def
      fdiv_def round64_def exact_int_def is_infinite_def is_zero_def signed_zero_def Let_def)




section \<open>The range filter\<close>

lemma getitem_table_take_mask:
  "getitem (table_take_mask m data) n =
     (case getitem data n of Inl e \<Rightarrow> Inl e | Inr c \<Rightarrow> Inr (col_take_mask m c))"
  by (induction data) (auto simp: getitem_def table_take_mask_def)

lemma map_fst_table_take_mask [simp]: "map fst (table_take_mask m data) = map fst data"
  by (induction data) (auto simp: table_take_mask_def)

lemma take_mask_map: "take_mask (map P xs) xs = filter P xs"
  by (induction xs) (auto simp: take_mask_def)

lemma take_mask_Nil [simp]: "take_mask [] xs = []" "take_mask m [] = []"
  by (simp_all add: take_mask_def)

lemma take_mask_Cons [simp]:
  "take_mask (b # m) (x # xs) = (if b then x # take_mask m xs else take_mask m xs)"
  by (simp add: take_mask_def)

lemma take_mask_zip: "take_mask (map P ds) xs = map snd (filter (\<lambda>(d, x). P d) (zip ds xs))"
proof (induction ds arbitrary: xs)
  case Nil
  then show ?case by simp
next
  case (Cons d ds)
  then show ?case by (cases xs) auto
qed


lemma take_mask_twice:
  "take_mask (map P (filter P ds)) (take_mask (map P ds) xs) = take_mask (map P ds) xs"
proof (induction ds arbitrary: xs)
  case Nil
  then show ?case by simp
next
  case (Cons d ds)
  then show ?case by (cases xs) auto
qed

lemma col_take_mask_twice:
  "col_take_mask (map P (filter P ds)) (col_take_mask (map P ds) c) = col_take_mask (map P ds) c"
  by (cases c) (simp_all add: take_mask_twice)

lemma table_take_mask_twice:
  "table_take_mask (map P (filter P ds)) (table_take_mask (map P ds) data) =
   table_take_mask (map P ds) data"
  by (induction data) (auto simp: table_take_mask_def col_take_mask_twice)




lemma ensure_datetime_Inr:
  assumes "ensure_datetime p data date_column = (Inr u, data1)"
  shows "\<exists>c ds. getitem data date_column = Inr c \<and> to_datetime p c = Inr ds
           \<and> getitem data1 date_column = Inr (DatetimeCol ds)"
proof -
  from assms obtain c where c: "getitem data date_column = Inr c"
    by (cases "getitem data date_column") (auto simp: ensure_datetime_def)
  show ?thesis
  proof (cases "is_datetime64_dtype c")
    case True
    then obtain ts where "c = DatetimeCol ts"
      by (cases c) auto
    with assms c show ?thesis
      by (simp add: ensure_datetime_def)
  next
    case False
    with assms c obtain ts where "to_datetime p c = Inr ts"
      and "data1 = setitem data date_column (DatetimeCol ts)"
      by (cases "to_datetime p c") (auto simp: ensure_datetime_def)
    with c show ?thesis
      by (simp add: getitem_setitem)
  qed
qed

lemma filter_by_date_range_run:
  assumes "ensure_datetime p data date_column = (Inr (), data1)"
    and "getitem data1 date_column = Inr (DatetimeCol ds)"
    and "to_bound p start_date = Inr s" and "to_bound p end_date = Inr e"
  shows "filter_by_date_range p data date_column start_date end_date =
           (Inr (table_take_mask (map (in_range s e) ds) data1), data1)"
proof -
  have "map (\<lambda>(a, b). a \<and> b) (zip (map (ts_le s) ds) (map (\<lambda>d. ts_le d e) ds)) = map (in_range s e) ds"
    by (induction ds) (auto simp: in_range_def)
  with assms show ?thesis
    by (simp add: filter_by_date_range_def column_ge_def column_le_def)
qed

lemma filter_by_date_range_Inr:
  assumes "fst (filter_by_date_range p data date_column start_date end_date) = Inr out"
  shows "\<exists>data1 ds s e. ensure_datetime p data date_column = (Inr (), data1)
           \<and> getitem data1 date_column = Inr (DatetimeCol ds)
           \<and> to_bound p start_date = Inr s \<and> to_bound p end_date = Inr e
           \<and> out = table_take_mask (map (in_range s e) ds) data1"
proof -
  obtain r data1 where ed: "ensure_datetime p data date_column = (r, data1)"
    by (cases "ensure_datetime p data date_column")
  with assms obtain u where r: "r = Inr u"
    by (cases r) (auto simp: filter_by_date_range_def)
  from ed r obtain ds where col: "getitem data1 date_column = Inr (DatetimeCol ds)"
    using ensure_datetime_Inr by blast
  from assms ed r obtain s where s: "to_bound p start_date = Inr s"
    by (cases "to_bound p start_date") (auto simp: filter_by_date_range_def)
  from assms ed r s obtain e where e: "to_bound p end_date = Inr e"
    by (cases "to_bound p end_date") (auto simp: filter_by_date_range_def)
  from ed r have ed': "ensure_datetime p data date_column = (Inr (), data1)"
    by simp
  from filter_by_date_range_run [OF ed' col s e] assms
  have "out = table_take_mask (map (in_range s e) ds) data1"
    by simp
  with ed' col s e show ?thesis
    by blast
qed


lemma iso_parser_jan:
  "iso_parser (PStr ''2024-01-01'') = Inr (Some (19723 * ns_per_day))"
  "iso_parser (PStr ''2024-01-02'') = Inr (Some (19724 * ns_per_day))"
  "iso_parser (PStr ''2024-01-03'') = Inr (Some (19725 * ns_per_day))"
  "iso_parser (PStr ''2024-01-04'') = Inr (Some (19726 * ns_per_day))"
  by code_simp+






text \<open>
  C9. Filtering is idempotent: when \<open>filter_by_date_range\<close> returns a table, filtering
  that table again with the same bounds returns the same table (and, its date column
  being datetime already, leaves it as it is). When the first call raises, there is no
  table to filter again.
\<close>

theorem filter_by_date_range_idempotent:
  assumes "fst (filter_by_date_range p data date_column start_date end_date) = Inr out"
  shows "filter_by_date_range p out date_column start_date end_date = (Inr out, out)"
proof -
  from filter_by_date_range_Inr [OF assms] obtain data1 ds s e
    where col: "getitem data1 date_column = Inr (DatetimeCol ds)"
      and s: "to_bound p start_date = Inr s" and e: "to_bound p end_date = Inr e"
      and out: "out = table_take_mask (map (in_range s e) ds) data1"
    by blast
  have col': "getitem out date_column = Inr (DatetimeCol (filter (in_range s e) ds))"
    by (simp add: out getitem_table_take_mask col take_mask_map)
  then have ed: "ensure_datetime p out date_column = (Inr (), out)"
    by (simp add: ensure_datetime_def)
  have "filter_by_date_range p out date_column start_date end_date =
          (Inr (table_take_mask (map (in_range s e) (filter (in_range s e) ds)) out), out)"
    by (rule filter_by_date_range_run [OF ed col' s e])
  then show ?thesis
    by (simp add: out table_take_mask_twice)
qed

theorem filter_by_date_range_idempotent_witness:
  "filter_by_date_range iso_parser
     [(''date'', DatetimeCol [Some (19724 * ns_per_day), Some (19725 * ns_per_day)]),
      (''value'', IntCol [2, 3])]
     ''date'' (BStr ''2024-01-02'') (BStr ''2024-01-03'')
   = (Inr [(''date'', DatetimeCol [Some (19724 * ns_per_day), Some (19725 * ns_per_day)]),
           (''value'', IntCol [2, 3])],
      [(''date'', DatetimeCol [Some (19724 * ns_per_day), Some (19725 * ns_per_day)]),
       (''value'', IntCol [2, 3])])"
proof -
  let ?c = "ObjectCol [Some ''2024-01-01'', Some ''2024-01-02'', Some ''2024-01-03'', Some ''2024-01-04'']"
  let ?t = "[(''date'', ?c), (''value'', IntCol [1, 2, 3, 4])]"
  let ?out = "[(''date'', DatetimeCol [Some (19724 * ns_per_day), Some (19725 * ns_per_day)]),
               (''value'', IntCol [2, 3])]"
  have first: "fst (filter_by_date_range iso_parser ?t ''date'' (BStr ''2024-01-02'') (BStr ''2024-01-03''))
                 = Inr ?out"
    by (simp add: filter_by_date_range_def ensure_datetime_def getitem_def iso_parser_jan
        column_ge_def column_le_def ts_le_def table_take_mask_def ns_per_day_def)
  from filter_by_date_range_idempotent [OF first] show ?thesis .
qed

section \<open>Weekly aggregation\<close>

text \<open>
  C3. The claim fails on a table with a missing date. The row of a date that is NaT has
  no ISO week and no ISO year, \<open>groupby\<close> leaves a row without a key out of every
  group, and its value is in no weekly sum: for the values 5 and 2, the second one dated
  NaT, the weekly table has the one row of the first date with the value 5, and the sum
  of its value column is 5, whereas the sum of the value column of the input is 7. The
  claim also fails on a table whose value column is named \<open>week\<close>: the function
  writes the week numbers into that column, and \<open>reset_index\<close> then refuses to insert
  the key \<open>week\<close> beside the aggregated column of the same name.
\<close>

theorem convert_to_weekly_drops_missing_date:
  "fst (convert_to_weekly p fs
          [(''date'', DatetimeCol [Some (19723 * ns_per_day), None]), (''value'', IntCol [5, 2])]
          ''date'' ''value'')
     = Inr [(''year'', FloatCol [Fin 2024]), (''week'', FloatCol [Fin 1]),
            (''value'', IntCol [5]), (''date'', DatetimeCol [Some (19723 * ns_per_day)])]
   \<and> series_sum fs (IntCol [5]) = Inr (PInt 5)
   \<and> series_sum fs (IntCol [5, 2]) = Inr (PInt 7)
   \<and> fst (convert_to_weekly p fs
          [(''date'', DatetimeCol [Some (19723 * ns_per_day)]), (''week'', IntCol [5])]
          ''date'' ''week'')
     = Inl (ValueError (cannot_insert ''week''))"
  by code_simp

section \<open>Empty tables\<close>



lemma empty_table_setitem:
  "empty_table data \<Longrightarrow> col_len c = 0 \<Longrightarrow> empty_table (setitem data n c)"
  by (induction data n c rule: setitem.induct) (auto simp: empty_table_def)

lemma group_keys_Nil [simp]: "group_keys [] = []"
  by (simp add: group_keys_def map_filter_def)



lemma dt_field_Nil [simp]: "dt_field f [] = IntCol []"
  by (simp add: dt_field_def)







section \<open>The caller's table\<close>

text \<open>
  The functions that start with \<open>data = data.copy()\<close> leave the caller's table as it
  was, whatever they return or raise.
\<close>

lemma copies_keep_input:
  "snd (calculate_growth_rate rd data value_column) = data
   \<and> snd (calculate_moving_average rd data value_column w) = data"
  by (simp add: calculate_growth_rate_def calculate_moving_average_def Let_def split: sum.splits)

text \<open>
  C2, where the code departs from it. The two aggregations and the filter assign to the
  caller's table: for one row dated by the string 2024-01-01, the caller's date column
  is a datetime column after each of the three calls, and after an aggregation the table
  has two columns more, the week or the month and the year.
\<close>

theorem aggregation_changes_input:
  "snd (convert_to_weekly iso_parser fs
          [(''date'', ObjectCol [Some ''2024-01-01'']), (''value'', IntCol [5])] ''date'' ''value'')
     = [(''date'', DatetimeCol [Some (19723 * ns_per_day)]), (''value'', IntCol [5]),
        (''week'', IntCol [1]), (''year'', IntCol [2024])]
   \<and> snd (convert_to_monthly iso_parser fs
          [(''date'', ObjectCol [Some ''2024-01-01'']), (''value'', IntCol [5])] ''date'' ''value'')
     = [(''date'', DatetimeCol [Some (19723 * ns_per_day)]), (''value'', IntCol [5]),
        (''month'', IntCol [1]), (''year'', IntCol [2024])]
   \<and> snd (filter_by_date_range iso_parser
          [(''date'', ObjectCol [Some ''2024-01-01'']), (''value'', IntCol [5])] ''date''
          (BStr ''2024-01-01'') (BStr ''2024-01-01''))
     = [(''date'', DatetimeCol [Some (19723 * ns_per_day)]), (''value'', IntCol [5])]"
  by code_simp

end
